theory Spec2Isabelle
  imports Complex_Main "HOL-Library.AList"
begin

section \<open>Python values used by the program\<close>

text \<open>
  Strings are lists of characters; the model covers ASCII text (character codes below 128),
  which is what currency codes, pair keys and command arguments are made of.
  Python floats are modelled as exact rationals: the properties below are about which branch
  is taken and which arithmetic expression is evaluated, not about rounding.
\<close>

definition is_lower_char :: "char \<Rightarrow> bool" where
  "is_lower_char c = (97 \<le> (of_char c :: nat) \<and> (of_char c :: nat) \<le> 122)"

definition is_upper_char :: "char \<Rightarrow> bool" where
  "is_upper_char c = (65 \<le> (of_char c :: nat) \<and> (of_char c :: nat) \<le> 90)"

text \<open>\<open>str.isspace\<close> on one ASCII character: tab, line feed, vertical tab, form feed,
  carriage return, the four separators 28..31, and the space.\<close>

definition is_space_char :: "char \<Rightarrow> bool" where
  "is_space_char c = ((9 \<le> (of_char c :: nat) \<and> (of_char c :: nat) \<le> 13)
                      \<or> (28 \<le> (of_char c :: nat) \<and> (of_char c :: nat) \<le> 32))"

definition upper_char :: "char \<Rightarrow> char" where
  "upper_char c = (if is_lower_char c then char_of ((of_char c :: nat) - 32) else c)"

text \<open>\<open>s.upper()\<close>, \<open>s.strip()\<close> and \<open>s.isupper()\<close>. \<open>isupper\<close> is true when the string
  has at least one cased character and no lowercase one.\<close>

definition upper :: "string \<Rightarrow> string" where
  "upper s = map upper_char s"

definition strip :: "string \<Rightarrow> string" where
  "strip s = rev (dropWhile is_space_char (rev (dropWhile is_space_char s)))"

definition isupper :: "string \<Rightarrow> bool" where
  "isupper s = (list_ex is_upper_char s \<and> list_all (\<lambda>c. \<not> is_lower_char c) s)"

section \<open>Errors\<close>

datatype value_problem =
    CodeLength        \<comment> \<open>code shorter than 2 or longer than 5 characters\<close>
  | CodeNotUpper      \<comment> \<open>\<open>code.isupper()\<close> is false\<close>
  | CodeHasSpace      \<comment> \<open>a space inside the code\<close>
  | NameEmpty         \<comment> \<open>the name is empty after \<open>strip\<close>\<close>

datatype error =
    ValueError value_problem
  | CurrencyNotFoundError string
  | InsufficientFundsError rat rat
  | InvalidAmountError
  | ApiRequestError
  | KeyError string
  | TypeError

section \<open>Currencies (core/currencies.py)\<close>

datatype currency =
    Fiat (name: string) (code: string) (issuing_country: string)
  | Crypto (name: string) (code: string) (algorithm: string) (market_cap: rat)

definition validate_code :: "string \<Rightarrow> error + unit" where
  "validate_code c =
     (if \<not> (2 \<le> length c \<and> length c \<le> 5) then Inl (ValueError CodeLength)
      else if \<not> isupper c then Inl (ValueError CodeNotUpper)
      else if CHR '' '' \<in> set c then Inl (ValueError CodeHasSpace)
      else Inr ())"

definition validate_name :: "string \<Rightarrow> error + unit" where
  "validate_name n = (if strip n = [] then Inl (ValueError NameEmpty) else Inr ())"

text \<open>\<open>Currency.__init__\<close>: the code is validated first, then the name.\<close>

definition Currency_init :: "string \<Rightarrow> string \<Rightarrow> error + unit" where
  "Currency_init n c =
     (case validate_code c of Inl e \<Rightarrow> Inl e | Inr _ \<Rightarrow> validate_name n)"

definition FiatCurrency :: "string \<Rightarrow> string \<Rightarrow> string \<Rightarrow> error + currency" where
  "FiatCurrency n c country =
     (case Currency_init n c of Inl e \<Rightarrow> Inl e | Inr _ \<Rightarrow> Inr (Fiat n c country))"

definition CryptoCurrency :: "string \<Rightarrow> string \<Rightarrow> string \<Rightarrow> rat \<Rightarrow> error + currency" where
  "CryptoCurrency n c algo mcap =
     (case Currency_init n c of Inl e \<Rightarrow> Inl e | Inr _ \<Rightarrow> Inr (Crypto n c algo mcap))"

subsection \<open>The registry\<close>

type_synonym registry = "(string \<times> currency) list"

definition fiats :: "(error + currency) list" where
  "fiats =
     [FiatCurrency ''US Dollar'' ''USD'' ''United States'',
      FiatCurrency ''Euro'' ''EUR'' ''Eurozone'',
      FiatCurrency ''Russian Ruble'' ''RUB'' ''Russia'',
      FiatCurrency ''British Pound'' ''GBP'' ''United Kingdom'',
      FiatCurrency ''Japanese Yen'' ''JPY'' ''Japan'']"

definition cryptos :: "(error + currency) list" where
  "cryptos =
     [CryptoCurrency ''Bitcoin'' ''BTC'' ''SHA-256'' 1120000000000,
      CryptoCurrency ''Ethereum'' ''ETH'' ''Ethash'' 350000000000,
      CryptoCurrency ''Litecoin'' ''LTC'' ''Scrypt'' 5800000000,
      CryptoCurrency ''Cardano'' ''ADA'' ''Ouroboros'' 12000000000]"

text \<open>The two lists are built before the loop runs, so the first constructor that raises
  aborts the initialisation with the registry untouched.\<close>

fun constructed :: "(error + currency) list \<Rightarrow> error + currency list" where
  "constructed [] = Inr []"
| "constructed (Inl e # _) = Inl e"
| "constructed (Inr c # rest) =
     (case constructed rest of Inl e \<Rightarrow> Inl e | Inr cs \<Rightarrow> Inr (c # cs))"

definition initialize_currencies :: "registry \<Rightarrow> error + registry" where
  "initialize_currencies reg =
     (case constructed (fiats @ cryptos) of
        Inl e \<Rightarrow> Inl e
      | Inr cs \<Rightarrow> Inr (foldl (\<lambda>r c. AList.update (code c) c r) reg cs))"

text \<open>The module-level registry after import: the initialisation runs once on the empty
  dictionary.\<close>

definition currency_registry :: registry where
  "currency_registry = (case initialize_currencies [] of Inl _ \<Rightarrow> [] | Inr r \<Rightarrow> r)"

text \<open>\<open>get_currency\<close> on a given registry: normalise, initialise an empty registry, look up.\<close>

definition get_currency_in :: "registry \<Rightarrow> string \<Rightarrow> error + currency" where
  "get_currency_in reg c =
     (let c' = strip (upper c) in
      case (if reg = [] then initialize_currencies reg else Inr reg) of
        Inl e \<Rightarrow> Inl e
      | Inr reg' \<Rightarrow>
          (case map_of reg' c' of
             None \<Rightarrow> Inl (CurrencyNotFoundError c')
           | Some cur \<Rightarrow> Inr cur))"

definition get_currency :: "string \<Rightarrow> error + currency" where
  "get_currency c = get_currency_in currency_registry c"

definition get_all_currencies :: registry where
  "get_all_currencies =
     (if currency_registry = [] then
        (case initialize_currencies currency_registry of Inl _ \<Rightarrow> [] | Inr r \<Rightarrow> r)
      else currency_registry)"

section \<open>Display strings (core/currencies.py)\<close>

text \<open>Output strings are byte strings; the em dash of the two templates is its UTF-8
  encoding.\<close>

definition em_dash :: string where
  "em_dash = [char_of (226::nat), char_of (128::nat), char_of (148::nat)]"

definition digit_char :: "nat \<Rightarrow> char" where
  "digit_char d = char_of (48 + d)"

fun digits :: "nat \<Rightarrow> string" where
  "digits n = (if n < 10 then [digit_char n] else digits (n div 10) @ [digit_char (n mod 10)])"

declare digits.simps [simp del]

definition pad2 :: "nat \<Rightarrow> string" where
  "pad2 n = (if n < 10 then CHR ''0'' # digits n else digits n)"

definition pad3 :: "nat \<Rightarrow> string" where
  "pad3 n = [digit_char (n div 100), digit_char (n div 10 mod 10), digit_char (n mod 10)]"

fun grouped :: "nat \<Rightarrow> string" where
  "grouped n = (if n < 1000 then digits n else grouped (n div 1000) @ '','' @ pad3 (n mod 1000))"

declare grouped.simps [simp del]

text \<open>Python formats a float by rounding its exact value to the requested digits, ties to
  the even neighbour.\<close>

definition round_half_even :: "rat \<Rightarrow> int" where
  "round_half_even x =
     (let f = \<lfloor>x\<rfloor>; d = x - of_int f in
      if d < 1 / 2 then f else if 1 / 2 < d then f + 1 else if even f then f else f + 1)"

text \<open>The format \<open>,.2f\<close>: two fraction digits, the integer part grouped in threes.\<close>

definition format_grouped_2f :: "rat \<Rightarrow> string" where
  "format_grouped_2f x =
     (let n = nat (round_half_even (\<bar>x\<bar> * 100)) in
      (if x < 0 then ''-'' else []) @ grouped (n div 100) @ ''.''
        @ [digit_char (n div 10 mod 10), digit_char (n mod 10)])"

text \<open>The decimal exponent of a positive number \<open>p / q\<close>: the difference of the digit counts
  of \<open>p\<close> and \<open>q\<close>, or one less.\<close>

definition exponent10 :: "rat \<Rightarrow> int" where
  "exponent10 a =
     (let (p, q) = quotient_of a;
          d = int (length (digits (nat p))) - int (length (digits (nat q)))
      in if power_int 10 d \<le> a then d else d - 1)"

text \<open>The format \<open>.2e\<close>: one digit, two fraction digits, a signed exponent of at least
  two digits.\<close>

definition format_2e :: "rat \<Rightarrow> string" where
  "format_2e x =
     (if x = 0 then ''0.00e+00''
      else
        let a = \<bar>x\<bar>;
            e0 = exponent10 a;
            m0 = nat (round_half_even (a / power_int 10 e0 * 100));
            m = (if m0 = 1000 then 100 else m0);
            e = (if m0 = 1000 then e0 + 1 else e0)
        in (if x < 0 then ''-'' else [])
             @ [digit_char (m div 100), CHR ''.'', digit_char (m div 10 mod 10),
                digit_char (m mod 10), CHR ''e'', if e < 0 then CHR ''-'' else CHR ''+'']
             @ pad2 (nat \<bar>e\<bar>))"

fun get_display_info :: "currency \<Rightarrow> string" where
  "get_display_info (Fiat n c country) =
     ''[FIAT] '' @ c @ '' '' @ em_dash @ '' '' @ n @ '' (Issuing: '' @ country @ '')''"
| "get_display_info (Crypto n c algo mcap) =
     (let mcap_display = (if 1000000000 < mcap then format_2e mcap else format_grouped_2f mcap)
      in ''[CRYPTO] '' @ c @ '' '' @ em_dash @ '' '' @ n @ '' (Algo: '' @ algo
           @ '', MCAP: '' @ mcap_display @ '')'')"

section \<open>Stored data (cli/interface.py)\<close>

text \<open>
  The rates file is a JSON object. A pair key maps to an object that may carry the fields
  \<open>rate\<close> and \<open>updated_at\<close>; the keys \<open>source\<close> and \<open>last_refresh\<close> map to plain strings.
  A dictionary is an association list in insertion order, its keys distinct.
\<close>

datatype rate_value =
    RateData "rat option" "string option"
      \<comment> \<open>an object: its \<open>rate\<close> and \<open>updated_at\<close>, when present\<close>
  | Scalar string
      \<comment> \<open>a value that is not an object\<close>

type_synonym rates = "(string \<times> rate_value) list"

text \<open>\<open>value['rate']\<close> and \<open>value['updated_at']\<close>.\<close>

fun item_rate :: "rate_value \<Rightarrow> error + rat" where
  "item_rate (RateData (Some r) _) = Inr r"
| "item_rate (RateData None _) = Inl (KeyError ''rate'')"
| "item_rate (Scalar _) = Inl TypeError"

fun item_updated_at :: "rate_value \<Rightarrow> error + string" where
  "item_updated_at (RateData _ (Some u)) = Inr u"
| "item_updated_at (RateData _ None) = Inl (KeyError ''updated_at'')"
| "item_updated_at (Scalar _) = Inl TypeError"

text \<open>\<open>load_rates\<close>: the file's content, or \<open>ApiRequestError\<close> when the file is missing or
  cannot be read (\<open>None\<close>).\<close>

definition load_rates :: "rates option \<Rightarrow> error + rates" where
  "load_rates file = (case file of None \<Rightarrow> Inl ApiRequestError | Some r \<Rightarrow> Inr r)"

definition pair_key :: "string \<Rightarrow> string \<Rightarrow> string" where
  "pair_key a b = a @ ''_'' @ b"

definition not_metadata :: "string \<Rightarrow> bool" where
  "not_metadata k = (k \<noteq> ''source'' \<and> k \<noteq> ''last_refresh'')"

text \<open>The loop that show-portfolio, buy and sell run over \<open>rates.items()\<close> to build
  \<open>exchange_rates\<close>.\<close>

fun exchange_rates_loop :: "rates \<Rightarrow> (string \<times> rat) list \<Rightarrow> error + (string \<times> rat) list" where
  "exchange_rates_loop [] ex = Inr ex"
| "exchange_rates_loop ((k, v) # rest) ex =
     (if k \<noteq> ''source'' \<and> k \<noteq> ''last_refresh'' then
        (case item_rate v of
           Inl e \<Rightarrow> Inl e
         | Inr r \<Rightarrow> exchange_rates_loop rest (AList.update k r ex))
      else exchange_rates_loop rest ex)"

section \<open>get-rate (cli/interface.py)\<close>

datatype rate_output =
    RateArgsMissing
      \<comment> \<open>\<open>--from\<close> or \<open>--to\<close> missing\<close>
  | RateCodesEmpty
      \<comment> \<open>a code empty after normalisation\<close>
  | RateDirect string string rat string "rat option"
      \<comment> \<open>from, to, the stored rate, its timestamp, the reverse quote when printed\<close>
  | RateInverted string string rat string rat
      \<comment> \<open>from, to, the computed rate, the timestamp, the stored reverse rate\<close>
  | RateSilent
      \<comment> \<open>the command returned without printing\<close>
  | RateBridged string string rat rat
      \<comment> \<open>from, to, the computed rate, the reverse quote\<close>
  | RateUnavailable string string "string list"
      \<comment> \<open>from, to, the pair keys of the table\<close>
  | RateCurrencyNotFound error "string list"
      \<comment> \<open>the error, the codes of the registry\<close>
  | RateFailed error
      \<comment> \<open>any other exception, reported\<close>

text \<open>The search through USD; \<open>None\<close> when it falls through to the last two prints.\<close>

definition usd_bridge :: "rates \<Rightarrow> string \<Rightarrow> string \<Rightarrow> rate_output option" where
  "usd_bridge rates f t =
     (if f \<noteq> ''USD'' \<and> t \<noteq> ''USD'' then
        (let usd_to_target_key = pair_key ''USD'' t;
             source_to_usd_key = pair_key f ''USD'' in
         case (map_of rates usd_to_target_key, map_of rates source_to_usd_key) of
           (Some target_data, Some source_data) \<Rightarrow>
             (case item_rate target_data of
                Inl e \<Rightarrow> Some (RateFailed e)
              | Inr usd_to_target \<Rightarrow>
                  (case item_rate source_data of
                     Inl e \<Rightarrow> Some (RateFailed e)
                   | Inr source_to_usd \<Rightarrow>
                       if usd_to_target \<noteq> 0 \<and> source_to_usd \<noteq> 0 then
                         (let calculated_rate = source_to_usd * usd_to_target;
                              reverse_rate =
                                (if calculated_rate \<noteq> 0 then 1 / calculated_rate else 0)
                          in Some (RateBridged f t calculated_rate reverse_rate))
                       else None))
         | _ \<Rightarrow> None)
      else None)"

text \<open>The body of the command from the direct lookup on, for normalised codes and the
  loaded rates.\<close>

definition resolve_rate :: "rates \<Rightarrow> string \<Rightarrow> string \<Rightarrow> rate_output" where
  "resolve_rate rates f t =
     (let rate_key = pair_key f t; reverse_rate_key = pair_key t f in
      case (if not_metadata rate_key then map_of rates rate_key else None) of
        Some rate_data \<Rightarrow>
          (case item_rate rate_data of
             Inl e \<Rightarrow> RateFailed e
           | Inr rate \<Rightarrow>
               (case item_updated_at rate_data of
                  Inl e \<Rightarrow> RateFailed e
                | Inr updated_at \<Rightarrow>
                    RateDirect f t rate updated_at (if rate \<noteq> 0 then Some (1 / rate) else None)))
      | None \<Rightarrow>
          (case (if not_metadata reverse_rate_key then map_of rates reverse_rate_key else None) of
             Some rate_data \<Rightarrow>
               (case item_rate rate_data of
                  Inl e \<Rightarrow> RateFailed e
                | Inr reverse_rate \<Rightarrow>
                    if reverse_rate \<noteq> 0 then
                      (case item_updated_at rate_data of
                         Inl e \<Rightarrow> RateFailed e
                       | Inr updated_at \<Rightarrow>
                           RateInverted f t (1 / reverse_rate) updated_at reverse_rate)
                    else RateSilent)
           | None \<Rightarrow>
               (case usd_bridge rates f t of
                  Some out \<Rightarrow> out
                | None \<Rightarrow> RateUnavailable f t (filter not_metadata (map fst rates)))))"

definition rate_except :: "error \<Rightarrow> rate_output" where
  "rate_except e =
     (case e of
        CurrencyNotFoundError _ \<Rightarrow> RateCurrencyNotFound e (map fst get_all_currencies)
      | _ \<Rightarrow> RateFailed e)"

definition get_rate_command :: "string option \<Rightarrow> string option \<Rightarrow> rates option \<Rightarrow> rate_output" where
  "get_rate_command from_arg to_arg file =
     (case (from_arg, to_arg) of
        (Some f, Some t) \<Rightarrow>
          if f = [] \<or> t = [] then RateArgsMissing
          else
            (case get_currency f of
               Inl e \<Rightarrow> rate_except e
             | Inr _ \<Rightarrow>
                 (case get_currency t of
                    Inl e \<Rightarrow> rate_except e
                  | Inr _ \<Rightarrow>
                      (let from_currency = strip (upper f); to_currency = strip (upper t) in
                       if from_currency = [] \<or> to_currency = [] then RateCodesEmpty
                       else
                         (case load_rates file of
                            Inl e \<Rightarrow> rate_except e
                          | Inr rates \<Rightarrow> resolve_rate rates from_currency to_currency))))
      | _ \<Rightarrow> RateArgsMissing)"

section \<open>Users, wallets and portfolios (core/models.py)\<close>

text \<open>
  The commands read two fields of the logged-in user, and a stored portfolio is a dictionary
  with the owner's \<open>user_id\<close> and the wallets: the currency codes in insertion order, each
  with its balance.
\<close>

record user =
  user_id :: int
  username :: string

record portfolio =
  portfolio_user_id :: int
  wallets :: "(string \<times> rat) list"

text \<open>Modelled from the spec: \<open>Portfolio.from_dict\<close> and \<open>Portfolio.to_dict\<close> of
  core/models.py, which is not among the sources. Section 8 has the round trip preserve every
  balance exactly, so both are the identity on the stored form.\<close>

definition from_dict :: "portfolio \<Rightarrow> portfolio" where
  "from_dict p = p"

text \<open>Modelled from the spec: see \<open>from_dict\<close>.\<close>

definition to_dict :: "portfolio \<Rightarrow> portfolio" where
  "to_dict p = p"

text \<open>Modelled from the spec: \<open>Portfolio.get_wallet\<close> of core/models.py, which is not among
  the sources. The wallet kept under the code, or nothing.\<close>

definition get_wallet :: "portfolio \<Rightarrow> string \<Rightarrow> rat option" where
  "get_wallet p c = map_of (wallets p) c"

text \<open>Modelled from the spec: \<open>Portfolio.get_or_create_wallet\<close> of core/models.py, which is
  not among the sources. Section 4.4: returns the existing wallet or creates one with
  balance 0, inserted into the portfolio's mapping.\<close>

definition get_or_create_wallet :: "portfolio \<Rightarrow> string \<Rightarrow> portfolio \<times> rat" where
  "get_or_create_wallet p c =
     (case map_of (wallets p) c of
        Some b \<Rightarrow> (p, b)
      | None \<Rightarrow> (p\<lparr>wallets := wallets p @ [(c, 0)]\<rparr>, 0))"

text \<open>Modelled from the spec: \<open>Wallet.deposit\<close> of core/models.py, which is not among the
  sources. Section 4.4: fails with InvalidAmount if amount \<open>\<le> 0\<close>; otherwise
  balance += amount.\<close>

definition deposit :: "rat \<Rightarrow> rat \<Rightarrow> error + rat" where
  "deposit balance amount =
     (if amount \<le> 0 then Inl InvalidAmountError else Inr (balance + amount))"

text \<open>Modelled from the spec: \<open>Wallet.withdraw\<close> of core/models.py, which is not among the
  sources. Section 4.4: fails with InvalidAmount if amount \<open>\<le> 0\<close>; fails with
  InsufficientFunds if amount exceeds the balance.\<close>

definition withdraw :: "rat \<Rightarrow> rat \<Rightarrow> error + rat" where
  "withdraw balance amount =
     (if amount \<le> 0 then Inl InvalidAmountError
      else if balance < amount then Inl (InsufficientFundsError balance amount)
      else Inr (balance - amount))"

section \<open>show-portfolio (cli/interface.py)\<close>

definition find_portfolio_by_user_id :: "portfolio list \<Rightarrow> int \<Rightarrow> portfolio option" where
  "find_portfolio_by_user_id portfolios uid = find (\<lambda>p. portfolio_user_id p = uid) portfolios"

text \<open>The table used when the rates cannot be loaded.\<close>

definition fallback_rates :: rates where
  "fallback_rates =
     [(''EUR_USD'', RateData (Some (27 / 25)) None),
      (''BTC_USD'', RateData (Some 50000) None),
      (''ETH_USD'', RateData (Some 3000) None)]"

datatype row =
    RowBase string rat rat
      \<comment> \<open>code, balance, value: the wallet is in the base currency\<close>
  | RowConverted string rat rat
      \<comment> \<open>code, balance, value: the balance times the rate found\<close>
  | RowNotFound string rat
      \<comment> \<open>code, balance: no rate found\<close>

text \<open>The loop over \<open>portfolio.wallets.items()\<close>, with the running total and the lines
  printed so far.\<close>

fun value_wallets ::
  "(string \<times> rat) list \<Rightarrow> string \<Rightarrow> (string \<times> rat) list \<Rightarrow> rat \<Rightarrow> row list \<Rightarrow> rat \<times> row list" where
  "value_wallets exchange_rates base [] total_value printed = (total_value, printed)"
| "value_wallets exchange_rates base ((currency_code, balance) # rest) total_value printed =
     (if currency_code = base then
        (let value_in_base = balance in
         value_wallets exchange_rates base rest (total_value + value_in_base)
           (printed @ [RowBase currency_code balance value_in_base]))
      else
        (let rate_key = pair_key currency_code base in
         case map_of exchange_rates rate_key of
           Some rate \<Rightarrow>
             (let value_in_base = balance * rate in
              value_wallets exchange_rates base rest (total_value + value_in_base)
                (printed @ [RowConverted currency_code balance value_in_base]))
         | None \<Rightarrow>
             value_wallets exchange_rates base rest total_value
               (printed @ [RowNotFound currency_code balance])))"

datatype portfolio_output =
    PfNotLoggedIn
  | PfNotFound
  | PfEmpty
  | PfReport string string "row list" rat
      \<comment> \<open>user name, base, the lines of the wallets, the total\<close>
  | PfFailed error

text \<open>The result is the output together with the flag of the warning that the fallback
  table is in use.\<close>

definition show_portfolio_command ::
  "string option \<Rightarrow> user option \<Rightarrow> portfolio list \<Rightarrow> rates option \<Rightarrow> bool \<times> portfolio_output" where
  "show_portfolio_command base_arg current_user portfolios file =
     (let base = (case base_arg of None \<Rightarrow> ''USD'' | Some b \<Rightarrow> b) in
      case current_user of
        None \<Rightarrow> (False, PfNotLoggedIn)
      | Some u \<Rightarrow>
          (case find_portfolio_by_user_id portfolios (user_id u) of
             None \<Rightarrow> (False, PfNotFound)
           | Some portfolio_data \<Rightarrow>
               (let p = from_dict portfolio_data;
                    warned = (case load_rates file of Inl _ \<Rightarrow> True | Inr _ \<Rightarrow> False);
                    rates = (case load_rates file of Inl _ \<Rightarrow> fallback_rates | Inr r \<Rightarrow> r)
                in if wallets p = [] then (warned, PfEmpty)
                   else
                     (case exchange_rates_loop rates [] of
                        Inl e \<Rightarrow> (warned, PfFailed e)
                      | Inr exchange_rates \<Rightarrow>
                          (case value_wallets exchange_rates base (wallets p) 0 [] of
                             (total_value, printed) \<Rightarrow>
                               (warned, PfReport (username u) base printed total_value))))))"

section \<open>buy and sell (cli/interface.py)\<close>

datatype trade_output =
    TrArgsMissing
  | TrNotNumber
  | TrNotLoggedIn
  | TrNotPositive
  | TrPortfolioNotFound
  | TrNoWallet string
  | TrInsufficient error
  | TrDone string rat rat rat rat rat
      \<comment> \<open>code, amount, rate, estimated cost or revenue, old balance, new balance\<close>
  | TrCurrencyNotFound error
  | TrFailed error
      \<comment> \<open>any other exception, reported by one of the last two handlers\<close>

definition trade_except :: "error \<Rightarrow> trade_output" where
  "trade_except e = (case e of CurrencyNotFoundError _ \<Rightarrow> TrCurrencyNotFound e | _ \<Rightarrow> TrFailed e)"

text \<open>The loop that puts the new portfolio in the place of the first one of the user.\<close>

fun replace_portfolio :: "int \<Rightarrow> portfolio \<Rightarrow> portfolio list \<Rightarrow> portfolio list" where
  "replace_portfolio uid portfolio_data [] = []"
| "replace_portfolio uid portfolio_data (p # ps) =
     (if portfolio_user_id p = uid then portfolio_data # ps
      else p # replace_portfolio uid portfolio_data ps)"

text \<open>
  A command returns its output and, when it called \<open>save_portfolios\<close>, the list it wrote.
  The parameter \<open>float\<close> is Python's \<open>float\<close> on the amount argument: \<open>None\<close> when it raises
  \<open>ValueError\<close>.
\<close>

definition buy_command ::
  "(string \<Rightarrow> rat option) \<Rightarrow> string option \<Rightarrow> string option \<Rightarrow> user option \<Rightarrow> portfolio list
     \<Rightarrow> rates option \<Rightarrow> trade_output \<times> portfolio list option" where
  "buy_command float currency_arg amount_arg current_user portfolios file =
     (case (currency_arg, amount_arg) of
        (Some currency0, Some amount_str) \<Rightarrow>
          if currency0 = [] \<or> amount_str = [] then (TrArgsMissing, None)
          else
            (case get_currency currency0 of
               Inl e \<Rightarrow> (trade_except e, None)
             | Inr _ \<Rightarrow>
            (case float amount_str of
               None \<Rightarrow> (TrNotNumber, None)
             | Some amount \<Rightarrow>
            (case current_user of
               None \<Rightarrow> (TrNotLoggedIn, None)
             | Some u \<Rightarrow>
            (let currency = strip (upper currency0) in
             if amount \<le> 0 then (TrNotPositive, None)
             else
            (case find_portfolio_by_user_id portfolios (user_id u) of
               None \<Rightarrow> (TrPortfolioNotFound, None)
             | Some portfolio_data \<Rightarrow>
            (case get_or_create_wallet (from_dict portfolio_data) currency of
               (p, old_balance) \<Rightarrow>
            (case load_rates file of
               Inl e \<Rightarrow> (trade_except e, None)
             | Inr rates \<Rightarrow>
            (case exchange_rates_loop rates [] of
               Inl e \<Rightarrow> (trade_except e, None)
             | Inr exchange_rates \<Rightarrow>
            (let rate = (case map_of exchange_rates (pair_key currency ''USD'') of
                           None \<Rightarrow> 0 | Some r \<Rightarrow> r);
                 estimated_cost = (if 0 < rate then amount * rate else 0) in
             case deposit old_balance amount of
               Inl e \<Rightarrow> (trade_except e, None)
             | Inr new_balance \<Rightarrow>
                 (let p' = p\<lparr>wallets := AList.update currency new_balance (wallets p)\<rparr>;
                      portfolios' = replace_portfolio (user_id u) (to_dict p') portfolios
                  in (TrDone currency amount rate estimated_cost old_balance new_balance,
                      Some portfolios')))))))))))
      | _ \<Rightarrow> (TrArgsMissing, None))"

definition sell_command ::
  "(string \<Rightarrow> rat option) \<Rightarrow> string option \<Rightarrow> string option \<Rightarrow> user option \<Rightarrow> portfolio list
     \<Rightarrow> rates option \<Rightarrow> trade_output \<times> portfolio list option" where
  "sell_command float currency_arg amount_arg current_user portfolios file =
     (case (currency_arg, amount_arg) of
        (Some currency0, Some amount_str) \<Rightarrow>
          if currency0 = [] \<or> amount_str = [] then (TrArgsMissing, None)
          else
            (case get_currency currency0 of
               Inl e \<Rightarrow> (trade_except e, None)
             | Inr _ \<Rightarrow>
            (case float amount_str of
               None \<Rightarrow> (TrNotNumber, None)
             | Some amount \<Rightarrow>
            (case current_user of
               None \<Rightarrow> (TrNotLoggedIn, None)
             | Some u \<Rightarrow>
            (let currency = strip (upper currency0) in
             if amount \<le> 0 then (TrNotPositive, None)
             else
            (case find_portfolio_by_user_id portfolios (user_id u) of
               None \<Rightarrow> (TrPortfolioNotFound, None)
             | Some portfolio_data \<Rightarrow>
            (let p = from_dict portfolio_data in
             case get_wallet p currency of
               None \<Rightarrow> (TrNoWallet currency, None)
             | Some old_balance \<Rightarrow>
            (case load_rates file of
               Inl e \<Rightarrow> (trade_except e, None)
             | Inr rates \<Rightarrow>
            (case exchange_rates_loop rates [] of
               Inl e \<Rightarrow> (trade_except e, None)
             | Inr exchange_rates \<Rightarrow>
            (let rate = (case map_of exchange_rates (pair_key currency ''USD'') of
                           None \<Rightarrow> 0 | Some r \<Rightarrow> r);
                 estimated_revenue = (if 0 < rate then amount * rate else 0) in
             case withdraw old_balance amount of
               Inl (InsufficientFundsError a b) \<Rightarrow>
                 (TrInsufficient (InsufficientFundsError a b), None)
             | Inl e \<Rightarrow> (trade_except e, None)
             | Inr new_balance \<Rightarrow>
                 (let p' = p\<lparr>wallets := AList.update currency new_balance (wallets p)\<rparr>;
                      portfolios' = replace_portfolio (user_id u) (to_dict p') portfolios
                  in (TrDone currency amount rate estimated_revenue old_balance new_balance,
                      Some portfolios')))))))))))
      | _ \<Rightarrow> (TrArgsMissing, None))"

text \<open>The portfolios file after a command: what the command wrote, or what was there.\<close>

definition persisted :: "portfolio list \<Rightarrow> trade_output \<times> portfolio list option \<Rightarrow> portfolio list" where
  "persisted portfolios result = (case snd result of None \<Rightarrow> portfolios | Some ps \<Rightarrow> ps)"

definition balances_nonneg :: "portfolio list \<Rightarrow> bool" where
  "balances_nonneg portfolios = list_all (\<lambda>p. list_all (\<lambda>(c, b). 0 \<le> b) (wallets p)) portfolios"

section \<open>Notions used to state the properties\<close>

text \<open>The rates mapping with the two metadata entries removed.\<close>

definition without_metadata :: "rates \<Rightarrow> rates" where
  "without_metadata rates = filter (\<lambda>(k, v). not_metadata k) rates"

text \<open>What a line of the portfolio report adds to the total.\<close>

fun contributed :: "row \<Rightarrow> rat" where
  "contributed (RowBase _ _ v) = v"
| "contributed (RowConverted _ _ v) = v"
| "contributed (RowNotFound _ _) = 0"

text \<open>The rate stored under a pair key itself: no reverse key, no path through USD.\<close>

definition direct_rate :: "rates \<Rightarrow> string \<Rightarrow> rat option" where
  "direct_rate rates k =
     (if not_metadata k then
        (case map_of rates k of
           Some (RateData (Some r) _) \<Rightarrow> Some r
         | _ \<Rightarrow> None)
      else None)"

text \<open>The line of a wallet, given the rate known for each pair key.\<close>

definition wallet_row :: "(string \<Rightarrow> rat option) \<Rightarrow> string \<Rightarrow> string \<times> rat \<Rightarrow> row" where
  "wallet_row known base w =
     (case w of (c, b) \<Rightarrow>
        if c = base then RowBase c b b
        else (case known (pair_key c base) of
                Some r \<Rightarrow> RowConverted c b (b * r)
              | None \<Rightarrow> RowNotFound c b))"

text \<open>A rates mapping as the rates file holds it: distinct keys, and a rate in every entry
  that is not metadata.\<close>

definition rates_well_formed :: "rates \<Rightarrow> bool" where
  "rates_well_formed rates =
     (distinct (map fst rates)
      \<and> list_all (\<lambda>(k, v). not_metadata k \<longrightarrow> (case item_rate v of Inr _ \<Rightarrow> True | Inl _ \<Rightarrow> False))
            rates)"

text \<open>The rates a show-portfolio run works with: the file, or the fallback table.\<close>

definition rates_in_use :: "rates option \<Rightarrow> rates" where
  "rates_in_use file = (case file of None \<Rightarrow> fallback_rates | Some r \<Rightarrow> r)"

section \<open>Facts about the registry and the normal form of a code\<close>

lemma constructed_catalog:
  "constructed (fiats @ cryptos) =
     Inr [Fiat ''US Dollar'' ''USD'' ''United States'',
          Fiat ''Euro'' ''EUR'' ''Eurozone'',
          Fiat ''Russian Ruble'' ''RUB'' ''Russia'',
          Fiat ''British Pound'' ''GBP'' ''United Kingdom'',
          Fiat ''Japanese Yen'' ''JPY'' ''Japan'',
          Crypto ''Bitcoin'' ''BTC'' ''SHA-256'' 1120000000000,
          Crypto ''Ethereum'' ''ETH'' ''Ethash'' 350000000000,
          Crypto ''Litecoin'' ''LTC'' ''Scrypt'' 5800000000,
          Crypto ''Cardano'' ''ADA'' ''Ouroboros'' 12000000000]"
  by (simp add: fiats_def cryptos_def FiatCurrency_def CryptoCurrency_def Currency_init_def
      validate_code_def validate_name_def isupper_def strip_def is_upper_char_def
      is_lower_char_def is_space_char_def)

lemma currency_registry_eq:
  "currency_registry =
     [(''USD'', Fiat ''US Dollar'' ''USD'' ''United States''),
      (''EUR'', Fiat ''Euro'' ''EUR'' ''Eurozone''),
      (''RUB'', Fiat ''Russian Ruble'' ''RUB'' ''Russia''),
      (''GBP'', Fiat ''British Pound'' ''GBP'' ''United Kingdom''),
      (''JPY'', Fiat ''Japanese Yen'' ''JPY'' ''Japan''),
      (''BTC'', Crypto ''Bitcoin'' ''BTC'' ''SHA-256'' 1120000000000),
      (''ETH'', Crypto ''Ethereum'' ''ETH'' ''Ethash'' 350000000000),
      (''LTC'', Crypto ''Litecoin'' ''LTC'' ''Scrypt'' 5800000000),
      (''ADA'', Crypto ''Cardano'' ''ADA'' ''Ouroboros'' 12000000000)]"
  by (simp add: currency_registry_def initialize_currencies_def constructed_catalog)

lemma currency_registry_nonempty: "currency_registry \<noteq> []"
  by (simp add: currency_registry_eq)

lemma registry_code: "(k, cur) \<in> set currency_registry \<Longrightarrow> code cur = k"
  by (auto simp: currency_registry_eq)

lemma registry_distinct: "distinct (map fst currency_registry)"
  by (simp add: currency_registry_eq)

lemma get_currency_eq:
  "get_currency s =
     (case map_of currency_registry (strip (upper s)) of
        None \<Rightarrow> Inl (CurrencyNotFoundError (strip (upper s)))
      | Some cur \<Rightarrow> Inr cur)"
  by (simp add: get_currency_def get_currency_in_def currency_registry_nonempty Let_def)

lemma is_space_upper_char: "is_space_char (upper_char c) = is_space_char c"
  by (auto simp: upper_char_def is_space_char_def is_lower_char_def)

lemma upper_char_idem: "upper_char (upper_char c) = upper_char c"
  by (auto simp: upper_char_def is_lower_char_def)

lemma upper_idem: "upper (upper s) = upper s"
  by (simp add: upper_def upper_char_idem)

lemma upper_strip: "upper (strip s) = strip (upper s)"
  by (simp add: upper_def strip_def dropWhile_map rev_map comp_def is_space_upper_char)

lemma strip_cons:
  "\<not> is_space_char x \<Longrightarrow>
     rev (dropWhile is_space_char (rev (x # r))) = x # rev (dropWhile is_space_char (rev r))"
  by (simp add: dropWhile_append)

lemma strip_idem: "strip (strip s) = strip s"
proof (cases "dropWhile is_space_char s")
  case Nil
  show ?thesis unfolding strip_def Nil by simp
next
  case (Cons x r)
  then have nsp: "\<not> is_space_char x"
    using hd_dropWhile [of is_space_char s] by simp
  have u: "strip s = x # rev (dropWhile is_space_char (rev r))"
    using Cons strip_cons [OF nsp] by (simp add: strip_def)
  have "dropWhile is_space_char (strip s) = strip s"
    using nsp by (simp add: u)
  moreover have "dropWhile is_space_char (rev (strip s)) = rev (strip s)"
    by (simp add: strip_def)
  ultimately show ?thesis
    by (simp add: strip_def)
qed

lemma normalise_idem: "strip (upper (strip (upper s))) = strip (upper s)"
  by (simp add: upper_strip upper_idem strip_idem)

lemma not_lower_upper_char: "\<not> is_lower_char (upper_char c)"
  by (auto simp: upper_char_def is_lower_char_def)

lemma normalised_no_lower: "c \<in> set (strip (upper s)) \<Longrightarrow> \<not> is_lower_char c"
  by (auto simp: strip_def upper_def not_lower_upper_char dest!: set_dropWhileD)

lemma not_metadata_normalised:
  "not_metadata (pair_key (strip (upper a)) (strip (upper b)))"
proof -
  let ?k = "pair_key (strip (upper a)) (strip (upper b))"
  have "CHR ''_'' \<in> set ?k"
    by (simp add: pair_key_def)
  then have 1: "?k \<noteq> ''source''"
    by auto
  have "CHR ''l'' \<notin> set ?k"
    using normalised_no_lower [of "CHR ''l''" a] normalised_no_lower [of "CHR ''l''" b]
    by (auto simp: pair_key_def is_lower_char_def)
  then have 2: "?k \<noteq> ''last_refresh''"
    by auto
  show ?thesis
    using 1 2 by (simp add: not_metadata_def)
qed

section \<open>The currency registry: claims\<close>

lemmas string_eval = strip_def upper_def upper_char_def isupper_def is_upper_char_def
  is_lower_char_def is_space_char_def

lemma Currency_init_eq:
  "Currency_init n c =
     (if length c < 2 \<or> 5 < length c then Inl (ValueError CodeLength)
      else if \<not> isupper c then Inl (ValueError CodeNotUpper)
      else if CHR '' '' \<in> set c then Inl (ValueError CodeHasSpace)
      else if strip n = [] then Inl (ValueError NameEmpty)
      else Inr ())"
  by (auto simp: Currency_init_def validate_code_def validate_name_def)

text \<open>
  Claim C7. Constructing a currency fails with a \<open>ValueError\<close> whenever the code is shorter
  than 2 or longer than 5 characters, is not uppercase, or contains a space, or the name is
  empty after trimming, and succeeds otherwise. In particular an empty name with the code USD is
  rejected for the name, and the code usd is rejected for not being uppercase.
\<close>

theorem currency_construction_validated:
  "(if length c < 2 \<or> 5 < length c \<or> \<not> isupper c \<or> CHR '' '' \<in> set c \<or> strip n = []
    then (\<exists>p. FiatCurrency n c country = Inl (ValueError p))
       \<and> (\<exists>p. CryptoCurrency n c algo mcap = Inl (ValueError p))
    else FiatCurrency n c country = Inr (Fiat n c country)
       \<and> CryptoCurrency n c algo mcap = Inr (Crypto n c algo mcap))
   \<and> FiatCurrency [] ''USD'' ''US'' = Inl (ValueError NameEmpty)
   \<and> FiatCurrency ''Dollar'' ''usd'' ''US'' = Inl (ValueError CodeNotUpper)"
proof -
  have general:
    "if length c < 2 \<or> 5 < length c \<or> \<not> isupper c \<or> CHR '' '' \<in> set c \<or> strip n = []
     then (\<exists>p. FiatCurrency n c country = Inl (ValueError p))
        \<and> (\<exists>p. CryptoCurrency n c algo mcap = Inl (ValueError p))
     else FiatCurrency n c country = Inr (Fiat n c country)
        \<and> CryptoCurrency n c algo mcap = Inr (Crypto n c algo mcap)"
    by (auto simp: FiatCurrency_def CryptoCurrency_def Currency_init_eq)
  have empty_name: "FiatCurrency [] ''USD'' ''US'' = Inl (ValueError NameEmpty)"
    by (simp add: FiatCurrency_def Currency_init_eq string_eval)
  have lower_code: "FiatCurrency ''Dollar'' ''usd'' ''US'' = Inl (ValueError CodeNotUpper)"
    by (simp add: FiatCurrency_def Currency_init_eq string_eval)
  show ?thesis
    using general empty_name lower_code by blast
qed

theorem currency_construction_validated_witness:
  "FiatCurrency ''Euro'' ''EUR'' ''Eurozone'' = Inr (Fiat ''Euro'' ''EUR'' ''Eurozone'')
   \<and> CryptoCurrency ''Bitcoin'' ''BTC'' ''SHA-256'' 5 = Inr (Crypto ''Bitcoin'' ''BTC'' ''SHA-256'' 5)
   \<and> (\<exists>p. FiatCurrency ''Euro'' ''E UR'' ''Eurozone'' = Inl (ValueError p))
   \<and> (\<exists>p. CryptoCurrency ''Bitcoin'' ''BITCOIN'' ''SHA-256'' 5 = Inl (ValueError p))"
  using currency_construction_validated [of "''EUR''" "''Euro''" "''Eurozone''" "''SHA-256''" 5]
    currency_construction_validated [of "''BTC''" "''Bitcoin''" "''Eurozone''" "''SHA-256''" 5]
    currency_construction_validated [of "''E UR''" "''Euro''" "''Eurozone''" "''SHA-256''" 5]
    currency_construction_validated [of "''BITCOIN''" "''Bitcoin''" "''Eurozone''" "''SHA-256''" 5]
  by (simp add: string_eval)

lemma registry_normalised: "list_all (\<lambda>(k, cur). strip (upper k) = k) currency_registry"
  by code_simp

text \<open>
  Claim C6. \<open>get_currency\<close> looks up the uppercased and trimmed argument: the lookup of a
  string and of its normal form agree; a normal form absent from the catalog gives
  \<open>CurrencyNotFoundError\<close> with that normal form; a currency that is found has the normal form
  as its code, and looking its code up again returns the same currency. Every entry of the
  catalog is found under its own code.
\<close>

theorem get_currency_lookup:
  "get_currency s = get_currency (strip (upper s))
   \<and> (case map_of currency_registry (strip (upper s)) of
        None \<Rightarrow> get_currency s = Inl (CurrencyNotFoundError (strip (upper s)))
      | Some cur \<Rightarrow>
          get_currency s = Inr cur \<and> code cur = strip (upper s)
          \<and> get_currency (code cur) = Inr cur)
   \<and> (\<forall>(k, cur) \<in> set currency_registry.
         get_currency k = Inr cur \<and> code cur = k \<and> get_currency (code cur) = Inr cur)"
proof -
  have norm: "get_currency s = get_currency (strip (upper s))"
    by (simp add: get_currency_eq normalise_idem cong: option.case_cong)
  have catalog: "get_currency k = Inr cur \<and> code cur = k \<and> get_currency (code cur) = Inr cur"
    if "(k, cur) \<in> set currency_registry" for k cur
  proof -
    have norm_k: "strip (upper k) = k"
      using that registry_normalised by (auto simp: list_all_iff)
    have "map_of currency_registry k = Some cur"
      using that registry_distinct by simp
    then show ?thesis
      using registry_code [OF that] by (simp add: get_currency_eq norm_k)
  qed
  have found: "get_currency s = Inr cur \<and> code cur = strip (upper s)
      \<and> get_currency (code cur) = Inr cur"
    if "map_of currency_registry (strip (upper s)) = Some cur" for cur
  proof -
    have mem: "(strip (upper s), cur) \<in> set currency_registry"
      using that by (rule map_of_SomeD)
    show ?thesis
      using catalog [OF mem] that by (simp add: get_currency_eq)
  qed
  have absent: "get_currency s = Inl (CurrencyNotFoundError (strip (upper s)))"
    if "map_of currency_registry (strip (upper s)) = None"
    using that by (simp add: get_currency_eq)
  show ?thesis
    using norm catalog found absent by (auto split: option.splits)
qed

theorem get_currency_lookup_witness:
  "get_currency '' usd '' = Inr (Fiat ''US Dollar'' ''USD'' ''United States'')
   \<and> get_currency ''USD'' = Inr (Fiat ''US Dollar'' ''USD'' ''United States'')
   \<and> get_currency ''xyz'' = Inl (CurrencyNotFoundError ''XYZ'')"
proof -
  have n1: "strip (upper '' usd '') = ''USD''" by code_simp
  have n2: "strip (upper ''xyz'') = ''XYZ''" by code_simp
  have n3: "strip (upper ''USD'') = ''USD''" by code_simp
  show ?thesis
    using get_currency_lookup [of "'' usd ''"] get_currency_lookup [of "''xyz''"]
    by (auto simp: n1 n2 n3 currency_registry_eq)
qed

section \<open>get-rate: claims\<close>

lemma get_currency_normal_nonempty: "get_currency s = Inr c \<Longrightarrow> strip (upper s) \<noteq> []"
  by (auto simp: get_currency_eq currency_registry_eq split: option.splits)

lemma get_currency_nonempty: "get_currency s = Inr c \<Longrightarrow> s \<noteq> []"
  using get_currency_normal_nonempty [of s c] by (auto simp: strip_def upper_def)

lemma get_rate_command_resolve:
  assumes "get_currency f = Inr cf" and "get_currency t = Inr ct"
  shows "get_rate_command (Some f) (Some t) (Some rates)
         = resolve_rate rates (strip (upper f)) (strip (upper t))"
  using assms get_currency_nonempty [OF assms(1)] get_currency_nonempty [OF assms(2)]
    get_currency_normal_nonempty [OF assms(1)] get_currency_normal_nonempty [OF assms(2)]
  by (simp add: get_rate_command_def load_rates_def Let_def)

text \<open>
  Claim C4. When the rates hold an entry with a rate and a timestamp under the key of the
  requested pair, get-rate prints that rate as the direct one, and with it the reverse quote
  \<open>1 / rate\<close>; the reverse quote is left out exactly when the stored rate is 0.
\<close>

theorem direct_rate_quoted:
  assumes "get_currency f = Inr cf" and "get_currency t = Inr ct"
    and "map_of rates (pair_key (strip (upper f)) (strip (upper t)))
         = Some (RateData (Some r) (Some u))"
  shows "get_rate_command (Some f) (Some t) (Some rates)
         = RateDirect (strip (upper f)) (strip (upper t)) r u
             (if r = 0 then None else Some (1 / r))"
  using assms(3) not_metadata_normalised [of f t]
  by (simp add: get_rate_command_resolve [OF assms(1) assms(2)] resolve_rate_def Let_def)

theorem direct_rate_quoted_witness:
  "get_rate_command (Some ''eur'') (Some ''usd'')
     (Some [(''EUR_USD'', RateData (Some (27 / 25)) (Some ''2025-10-09T10:30:00'')),
            (''ZZZ_USD'', RateData (Some 0) (Some ''2025-10-09T10:30:00''))])
   = RateDirect ''EUR'' ''USD'' (27 / 25) ''2025-10-09T10:30:00'' (Some (25 / 27))"
proof -
  have f: "get_currency ''eur'' = Inr (Fiat ''Euro'' ''EUR'' ''Eurozone'')" by code_simp
  have t: "get_currency ''usd'' = Inr (Fiat ''US Dollar'' ''USD'' ''United States'')" by code_simp
  have nf: "strip (upper ''eur'') = ''EUR''" by code_simp
  have nt: "strip (upper ''usd'') = ''USD''" by code_simp
  show ?thesis
    using direct_rate_quoted [OF f t, of _ "27 / 25" "''2025-10-09T10:30:00''"]
    by (simp add: nf nt pair_key_def)
qed

lemma reverse_zero_silent:
  assumes "get_currency f = Inr cf" and "get_currency t = Inr ct"
    and "map_of rates (pair_key (strip (upper f)) (strip (upper t))) = None"
    and "map_of rates (pair_key (strip (upper t)) (strip (upper f))) = Some (RateData (Some 0) u)"
  shows "get_rate_command (Some f) (Some t) (Some rates) = RateSilent"
  using assms(3,4) not_metadata_normalised [of f t] not_metadata_normalised [of t f]
  by (simp add: get_rate_command_resolve [OF assms(1) assms(2)] resolve_rate_def Let_def)

lemma inverted_rate:
  assumes "get_currency f = Inr cf" and "get_currency t = Inr ct"
    and "map_of rates (pair_key (strip (upper f)) (strip (upper t))) = None"
    and "map_of rates (pair_key (strip (upper t)) (strip (upper f)))
         = Some (RateData (Some r) (Some u))"
    and "r \<noteq> 0"
  shows "get_rate_command (Some f) (Some t) (Some rates)
         = RateInverted (strip (upper f)) (strip (upper t)) (1 / r) u r"
  using assms(3,4,5) not_metadata_normalised [of f t] not_metadata_normalised [of t f]
  by (simp add: get_rate_command_resolve [OF assms(1) assms(2)] resolve_rate_def Let_def)

lemma bridged_rate:
  assumes "get_currency f = Inr cf" and "get_currency t = Inr ct"
    and "strip (upper f) \<noteq> ''USD''" and "strip (upper t) \<noteq> ''USD''"
    and "map_of rates (pair_key (strip (upper f)) (strip (upper t))) = None"
    and "map_of rates (pair_key (strip (upper t)) (strip (upper f))) = None"
    and "map_of rates (pair_key (strip (upper f)) ''USD'') = Some (RateData (Some a) ua)"
    and "map_of rates (pair_key ''USD'' (strip (upper t))) = Some (RateData (Some b) ub)"
    and "a \<noteq> 0" and "b \<noteq> 0"
  shows "get_rate_command (Some f) (Some t) (Some rates)
         = RateBridged (strip (upper f)) (strip (upper t)) (a * b) (1 / (a * b))"
  using assms(3-10)
  by (simp add: get_rate_command_resolve [OF assms(1) assms(2)] resolve_rate_def usd_bridge_def
      Let_def)

lemma bridge_example:
  "get_rate_command (Some ''EUR'') (Some ''RUB'')
     (Some [(''USD_RUB'', RateData (Some 90) None), (''EUR_USD'', RateData (Some (27 / 25)) None)])
   = RateBridged ''EUR'' ''RUB'' (486 / 5) (5 / 486)"
  by code_simp

lemma unavailable_example:
  "get_rate_command (Some ''BTC'') (Some ''ETH'') (Some []) = RateUnavailable ''BTC'' ''ETH'' []"
  by code_simp

text \<open>
  Claim C2. With no direct key and a reverse key whose rate is 0, the rate is not inverted
  and no error is raised; the command then returns at once: it neither searches through USD
  nor reports the rate as unavailable. Here the table holds the reverse key alone.
\<close>

theorem reverse_zero_rate_returns_silently:
  "get_rate_command (Some ''EUR'') (Some ''RUB'')
     (Some [(''RUB_EUR'', RateData (Some 0) (Some ''2025-10-09T10:30:00''))])
   = RateSilent"
  by code_simp

text \<open>
  Claim C3. With both keys of the path through USD present and non-zero, the product of the
  two rates is printed when the direct and the reverse key are absent (\<open>bridged_rate\<close>,
  \<open>bridge_example\<close>). When the reverse key is present with rate 0, which resolves nothing,
  the command returns before the search through USD and prints nothing.
\<close>

theorem bridge_skipped_after_zero_reverse:
  "get_rate_command (Some ''EUR'') (Some ''RUB'')
     (Some [(''RUB_EUR'', RateData (Some 0) (Some ''2025-10-09T10:30:00'')),
            (''USD_RUB'', RateData (Some 90) (Some ''2025-10-09T10:30:00'')),
            (''EUR_USD'', RateData (Some (27 / 25)) (Some ''2025-10-09T10:30:00''))])
   = RateSilent"
  by code_simp

(*THMS*)

end
